theory Spec2Isabelle
  imports Complex_Main "HOL-Library.Multiset" "HOL-Library.Sublist"
begin

section \<open>Numeric values\<close>

text \<open>
  The values that flow through \<^verbatim>\<open>dprime\<close> are IEEE doubles.  They are modelled as the
  real numbers extended by the three special values, with exact (unrounded) arithmetic on
  the finite part and the IEEE rules for the special values.  Zero carries no sign: the
  only divisor of the program is a square root, which is never the negative zero.
\<close>

datatype fl = Fin real | PInf | NInf | NaN

fun isfinite :: "fl \<Rightarrow> bool" where
  "isfinite (Fin _) = True"
| "isfinite _ = False"

fun fneg :: "fl \<Rightarrow> fl" where
  "fneg (Fin a) = Fin (- a)"
| "fneg PInf = NInf"
| "fneg NInf = PInf"
| "fneg NaN = NaN"

fun fadd :: "fl \<Rightarrow> fl \<Rightarrow> fl" where
  "fadd NaN _ = NaN"
| "fadd _ NaN = NaN"
| "fadd PInf NInf = NaN"
| "fadd NInf PInf = NaN"
| "fadd PInf _ = PInf"
| "fadd _ PInf = PInf"
| "fadd NInf _ = NInf"
| "fadd _ NInf = NInf"
| "fadd (Fin a) (Fin b) = Fin (a + b)"

definition fsub :: "fl \<Rightarrow> fl \<Rightarrow> fl" where
  "fsub a b = fadd a (fneg b)"

text \<open>The sign of a value: \<open>Some True\<close> for positive, \<open>Some False\<close> for negative,
  \<open>None\<close> for zero and NaN.\<close>

fun fsign :: "fl \<Rightarrow> bool option" where
  "fsign (Fin a) = (if 0 < a then Some True else if a < 0 then Some False else None)"
| "fsign PInf = Some True"
| "fsign NInf = Some False"
| "fsign NaN = None"

definition signed_inf :: "bool \<Rightarrow> fl" where
  "signed_inf positive = (if positive then PInf else NInf)"

fun fmul :: "fl \<Rightarrow> fl \<Rightarrow> fl" where
  "fmul (Fin a) (Fin b) = Fin (a * b)"
| "fmul NaN _ = NaN"
| "fmul _ NaN = NaN"
| "fmul a b =
     (case (fsign a, fsign b) of
        (Some s, Some t) \<Rightarrow> signed_inf (s = t)
      | _ \<Rightarrow> NaN)"

fun fdiv :: "fl \<Rightarrow> fl \<Rightarrow> fl" where
  "fdiv NaN _ = NaN"
| "fdiv _ NaN = NaN"
| "fdiv (Fin a) (Fin b) =
     (if b = 0
      then (case fsign (Fin a) of None \<Rightarrow> NaN | Some s \<Rightarrow> signed_inf s)
      else Fin (a / b))"
| "fdiv (Fin a) _ = Fin 0"
| "fdiv a (Fin b) =
     (case fsign a of None \<Rightarrow> NaN | Some s \<Rightarrow> signed_inf (s = (0 \<le> b)))"
| "fdiv _ _ = NaN"

fun fsqrt :: "fl \<Rightarrow> fl" where
  "fsqrt (Fin a) = (if a < 0 then NaN else Fin (sqrt a))"
| "fsqrt PInf = PInf"
| "fsqrt NInf = NaN"
| "fsqrt NaN = NaN"

text \<open>Comparisons: every comparison with NaN is false.\<close>

fun fle :: "fl \<Rightarrow> fl \<Rightarrow> bool" where
  "fle NaN _ = False"
| "fle _ NaN = False"
| "fle NInf _ = True"
| "fle _ PInf = True"
| "fle (Fin a) (Fin b) = (a \<le> b)"
| "fle _ _ = False"

definition fgt :: "fl \<Rightarrow> fl \<Rightarrow> bool" where
  "fgt a b = (a \<noteq> NaN \<and> b \<noteq> NaN \<and> \<not> fle a b)"

text \<open>\<^verbatim>\<open>np.maximum\<close> and \<^verbatim>\<open>np.minimum\<close>: a NaN operand gives NaN.\<close>

definition np_maximum :: "fl \<Rightarrow> fl \<Rightarrow> fl" where
  "np_maximum a b = (if a = NaN \<or> b = NaN then NaN else if fle a b then b else a)"

definition np_minimum :: "fl \<Rightarrow> fl \<Rightarrow> fl" where
  "np_minimum a b = (if a = NaN \<or> b = NaN then NaN else if fle a b then a else b)"

section \<open>Arrays\<close>

text \<open>
  A numpy array is its shape and its elements in row-major order; a well-formed array
  has as many elements as the product of its shape.  A scalar is the array of shape
  \<open>[]\<close>.
\<close>

datatype ndarray = NDArray (shape: "nat list") (data: "fl list")

definition scalar :: "fl \<Rightarrow> ndarray" where
  "scalar x = NDArray [] [x]"

definition vec :: "fl list \<Rightarrow> ndarray" where
  "vec xs = NDArray [length xs] xs"

definition ndim :: "ndarray \<Rightarrow> nat" where
  "ndim a = length (shape a)"

definition np_size :: "ndarray \<Rightarrow> nat" where
  "np_size a = length (data a)"

definition all_finite :: "ndarray \<Rightarrow> bool" where
  "all_finite a = list_all isfinite (data a)"

datatype error = ValueError string | AssertionError | TypeError

text \<open>\<^verbatim>\<open>len(a)\<close>: the first dimension; a scalar has no length.\<close>

definition py_len :: "ndarray \<Rightarrow> error + nat" where
  "py_len a = (case shape a of [] \<Rightarrow> Inl TypeError | n # _ \<Rightarrow> Inr n)"

text \<open>\<^verbatim>\<open>a[mask]\<close> for a one-dimensional array and a boolean mask of its length.\<close>

definition mask_index :: "ndarray \<Rightarrow> bool list \<Rightarrow> ndarray" where
  "mask_index a keep = vec (map fst (filter snd (zip (data a) keep)))"

definition np_map :: "(fl \<Rightarrow> fl) \<Rightarrow> ndarray \<Rightarrow> ndarray" where
  "np_map f a = NDArray (shape a) (map f (data a))"

text \<open>
  Elementwise binary operations on arrays of one shape.  numpy also broadcasts arrays of
  different compatible shapes; the program meets that only between the results of the
  confusion-matrix collaborator, which are per-grouping arrays of one shape, so the model
  stops at a shape mismatch.
\<close>

definition np_binop :: "(fl \<Rightarrow> fl \<Rightarrow> fl) \<Rightarrow> ndarray \<Rightarrow> ndarray \<Rightarrow> error + ndarray" where
  "np_binop f a b =
     (if shape a = shape b
      then Inr (NDArray (shape a) (map2 f (data a) (data b)))
      else Inl (ValueError ''operands could not be broadcast together''))"

definition fsum :: "fl list \<Rightarrow> fl" where
  "fsum xs = foldl fadd (Fin 0) xs"

text \<open>\<^verbatim>\<open>a.mean()\<close>: the sum of all elements divided by their number.\<close>

definition np_mean :: "ndarray \<Rightarrow> fl" where
  "np_mean a = fdiv (fsum (data a)) (Fin (real (np_size a)))"

text \<open>\<^verbatim>\<open>a.var(ddof=d)\<close>: the sum of the squared deviations from the mean, divided by
  \<open>max (n - d) 0\<close>.\<close>

definition np_var :: "nat \<Rightarrow> ndarray \<Rightarrow> fl" where
  "np_var ddof a =
     (let arrmean = np_mean a;
          x = map (\<lambda>v. fsub v arrmean) (data a);
          x2 = map (\<lambda>v. fmul v v) x
      in fdiv (fsum x2) (Fin (real (np_size a - ddof))))"

text \<open>\<^verbatim>\<open>np.clip(a, a_min, a_max)\<close>, which numpy documents as
  \<^verbatim>\<open>np.minimum(a_max, np.maximum(a, a_min))\<close>.\<close>

definition clip1 :: "fl \<Rightarrow> fl \<Rightarrow> fl \<Rightarrow> fl" where
  "clip1 x a_min a_max = np_minimum a_max (np_maximum x a_min)"

definition np_clip :: "ndarray \<Rightarrow> fl \<Rightarrow> fl \<Rightarrow> ndarray" where
  "np_clip a a_min a_max = np_map (\<lambda>x. clip1 x a_min a_max) a"

text \<open>
  \<^verbatim>\<open>scipy.stats.norm.ppf\<close>, the quantile function of the standard normal distribution.
  Its values inside the open unit interval are a parameter \<open>ndtri\<close> of the model; at
  the ends and outside of the interval scipy returns the infinities and NaN.
\<close>

fun norm_ppf :: "(real \<Rightarrow> real) \<Rightarrow> fl \<Rightarrow> fl" where
  "norm_ppf ndtri (Fin q) =
     (if 0 < q \<and> q < 1 then Fin (ndtri q)
      else if q = 0 then NInf
      else if q = 1 then PInf
      else NaN)"
| "norm_ppf ndtri _ = NaN"

section \<open>The function \<^verbatim>\<open>dprime\<close>\<close>

text \<open>
  What the first half of \<^verbatim>\<open>dprime\<close> leaves behind: either the two sample arrays
  \<^verbatim>\<open>pos\<close>, \<^verbatim>\<open>neg\<close> (modes \<^verbatim>\<open>sample\<close> and \<^verbatim>\<open>binary\<close>) or the two rate arrays
  \<^verbatim>\<open>TPR\<close>, \<^verbatim>\<open>FPR\<close> (modes \<^verbatim>\<open>rate\<close> and \<^verbatim>\<open>confusionmat\<close>).
\<close>

datatype canonical = Samples ndarray ndarray | Rates ndarray ndarray

text \<open>The result of \<^verbatim>\<open>confusion_matrix_stats\<close>, a function of another module:
  \<^verbatim>\<open>P, N, TP, FN, FP, TN\<close>.  The function is a parameter of the model.\<close>

type_synonym stats = "ndarray \<times> ndarray \<times> ndarray \<times> ndarray \<times> ndarray \<times> ndarray"

text \<open>The branch \<^verbatim>\<open>mode == 'binary'\<close>.\<close>

definition binary_conversion :: "ndarray \<Rightarrow> ndarray \<Rightarrow> error + (ndarray \<times> ndarray)" where
  "binary_conversion y_true y_pred =
     (case py_len y_true of Inl e \<Rightarrow> Inl e | Inr n_true \<Rightarrow>
      case py_len y_pred of Inl e \<Rightarrow> Inl e | Inr n_pred \<Rightarrow>
      if n_true \<noteq> n_pred then Inl AssertionError
      else if \<not> all_finite y_true then Inl AssertionError
      else if ndim y_true \<noteq> 1 then Inl AssertionError
      else if ndim y_pred \<noteq> 1 then Inl AssertionError
      else
        let i_pos = map (\<lambda>t. fgt t (Fin 0)) (data y_true);
            i_neg = map Not i_pos;
            pos = mask_index y_pred i_pos;
            neg = mask_index y_pred i_neg
        in Inr (pos, neg))"

text \<open>The part \<^verbatim>\<open>basic checks and conversion\<close>.\<close>

definition basic_checks_and_conversion ::
  "(ndarray \<Rightarrow> error + stats) \<Rightarrow> ndarray \<Rightarrow> ndarray \<Rightarrow> string \<Rightarrow> error + canonical" where
  "basic_checks_and_conversion confusion_matrix_stats A B mode =
     (if mode = ''sample'' then Inr (Samples A B)
      else if mode = ''binary'' then
        (case binary_conversion A B of
           Inl e \<Rightarrow> Inl e
         | Inr (pos, neg) \<Rightarrow> Inr (Samples pos neg))
      else if mode = ''rate'' then
        (if shape A \<noteq> shape B then Inl AssertionError else Inr (Rates A B))
      else if mode = ''confusionmat'' then
        (case confusion_matrix_stats A of
           Inl e \<Rightarrow> Inl e
         | Inr (P, N, TP, FN, FP, TN) \<Rightarrow>
            (case np_binop fdiv TP P of
               Inl e \<Rightarrow> Inl e
             | Inr TPR \<Rightarrow>
                (case np_binop fdiv FP N of
                   Inl e \<Rightarrow> Inl e
                 | Inr FPR \<Rightarrow> Inr (Rates TPR FPR))))
      else Inl (ValueError ''Invalid mode''))"

text \<open>The part \<^verbatim>\<open>compute d'\<close>.\<close>

fun compute_dprime :: "(real \<Rightarrow> real) \<Rightarrow> canonical \<Rightarrow> error + ndarray" where
  "compute_dprime ndtri (Samples pos neg) =
     (if \<not> all_finite pos then Inl AssertionError
      else if \<not> all_finite neg then Inl AssertionError
      else if np_size pos \<le> 1 then
        Inl (ValueError (''Not enough positive samples'' @ ''to estimate the variance''))
      else if np_size neg \<le> 1 then
        Inl (ValueError (''Not enough negative samples'' @ ''to estimate the variance''))
      else
        let pos_mean = np_mean pos;
            neg_mean = np_mean neg;
            pos_var = np_var 1 pos;
            neg_var = np_var 1 neg;
            num = fsub pos_mean neg_mean;
            div' = fsqrt (fdiv (fadd pos_var neg_var) (Fin 2));
            dp = fdiv num div'
        in Inr (scalar dp))"
| "compute_dprime ndtri (Rates TPR FPR) =
     np_binop fsub (np_map (norm_ppf ndtri) TPR) (np_map (norm_ppf ndtri) FPR)"

text \<open>\<^verbatim>\<open>dprime\<close> up to, and without, the final clipping.  Both arrays are always
  passed (the mode \<^verbatim>\<open>confusionmat\<close> ignores \<open>B\<close>), and the keyword arguments of the
  collaborator are part of the parameter \<open>confusion_matrix_stats\<close>.\<close>

definition dprime_unclipped ::
  "(ndarray \<Rightarrow> error + stats) \<Rightarrow> (real \<Rightarrow> real) \<Rightarrow> ndarray \<Rightarrow> ndarray \<Rightarrow> string
     \<Rightarrow> error + ndarray" where
  "dprime_unclipped confusion_matrix_stats ndtri A B mode =
     (case basic_checks_and_conversion confusion_matrix_stats A B mode of
        Inl e \<Rightarrow> Inl e
      | Inr c \<Rightarrow> compute_dprime ndtri c)"

definition dprime ::
  "(ndarray \<Rightarrow> error + stats) \<Rightarrow> (real \<Rightarrow> real) \<Rightarrow> ndarray \<Rightarrow> ndarray \<Rightarrow> string
     \<Rightarrow> fl \<Rightarrow> fl \<Rightarrow> error + ndarray" where
  "dprime confusion_matrix_stats ndtri A B mode max_value min_value =
     (case dprime_unclipped confusion_matrix_stats ndtri A B mode of
        Inl e \<Rightarrow> Inl e
      | Inr dp \<Rightarrow> Inr (np_clip dp min_value max_value))"

text \<open>Concrete collaborators for evaluating \<^verbatim>\<open>dprime\<close> on examples: a
  \<^verbatim>\<open>confusion_matrix_stats\<close> that reads a 2x2 matrix with one grouping, and a
  quantile function whose value at one half is zero.\<close>

definition stats_2x2 :: "ndarray \<Rightarrow> error + stats" where
  "stats_2x2 M =
     (case data M of
        [tp, fn, fp, tn] \<Rightarrow>
          Inr (vec [fadd tp fn], vec [fadd fp tn], vec [tp], vec [fn], vec [fp], vec [tn])
      | _ \<Rightarrow> Inl (ValueError ''expected a 2x2 matrix''))"

definition ndtri_linear :: "real \<Rightarrow> real" where
  "ndtri_linear q = q - 1 / 2"

section \<open>The formulas of the specification\<close>

definition mean_spec :: "real list \<Rightarrow> real" where
  "mean_spec xs = sum_list xs / real (length xs)"

definition var_spec :: "real list \<Rightarrow> real" where
  "var_spec xs = (\<Sum>x\<leftarrow>xs. (x - mean_spec xs)\<^sup>2) / real (length xs - 1)"

text \<open>The partition of the predictions by the sign of the labels, in the words of the
  specification: positions with a label greater than zero, and positions with a label
  less than or equal to zero.\<close>

definition positives_spec :: "fl list \<Rightarrow> fl list \<Rightarrow> fl list" where
  "positives_spec labels preds = map snd (filter (\<lambda>(t, p). fgt t (Fin 0)) (zip labels preds))"

definition negatives_spec :: "fl list \<Rightarrow> fl list \<Rightarrow> fl list" where
  "negatives_spec labels preds = map snd (filter (\<lambda>(t, p). fle t (Fin 0)) (zip labels preds))"

definition well_formed :: "ndarray \<Rightarrow> bool" where
  "well_formed a = (length (data a) = prod_list (shape a))"

section \<open>Arithmetic on finite values\<close>

lemma foldl_fadd_Fin: "foldl fadd (Fin a) (map Fin xs) = Fin (a + sum_list xs)"
  by (induction xs arbitrary: a) (simp_all add: add.assoc)

lemma fsum_Fin: "fsum (map Fin xs) = Fin (sum_list xs)"
  by (simp add: fsum_def foldl_fadd_Fin)

lemma fsum_Fin_map: "fsum (map (\<lambda>x. Fin (f x)) xs) = Fin (\<Sum>x\<leftarrow>xs. f x)"
  using fsum_Fin [of "map f xs"] by (simp add: comp_def)

lemma fdiv_Fin_nz: "b \<noteq> 0 \<Longrightarrow> fdiv (Fin a) (Fin b) = Fin (a / b)"
  by simp

lemma all_finite_vec_Fin: "all_finite (vec (map Fin xs))"
  by (simp add: all_finite_def vec_def list_all_iff)

lemma all_finite_vec: "all_finite (vec xs) = list_all isfinite xs"
  by (simp add: all_finite_def vec_def)

lemma np_size_vec: "np_size (vec xs) = length xs"
  by (simp add: np_size_def vec_def)

lemma data_vec: "data (vec xs) = xs"
  by (simp add: vec_def)

lemma shape_vec: "shape (vec xs) = [length xs]"
  by (simp add: vec_def)

lemma np_mean_Fin:
  assumes "xs \<noteq> []"
  shows "np_mean (vec (map Fin xs)) = Fin (mean_spec xs)"
  using assms by (simp add: np_mean_def np_size_vec data_vec fsum_Fin mean_spec_def)

lemma np_var_Fin:
  assumes "1 < length xs"
  shows "np_var 1 (vec (map Fin xs)) = Fin (var_spec xs)"
proof -
  from assms have ne: "xs \<noteq> []" by auto
  from assms have nz: "real (length xs - 1) \<noteq> 0" by simp
  have dev: "map (\<lambda>v. fmul v v) (map (\<lambda>v. fsub v (Fin (mean_spec xs))) (map Fin xs))
             = map (\<lambda>x. Fin ((x - mean_spec xs)\<^sup>2)) xs"
    by (simp add: fsub_def power2_eq_square)
  have "np_var 1 (vec (map Fin xs)) =
        fdiv (fsum (map (\<lambda>x. Fin ((x - mean_spec xs)\<^sup>2)) xs)) (Fin (real (length xs - 1)))"
    unfolding np_var_def Let_def np_mean_Fin [OF ne] data_vec np_size_vec dev length_map ..
  also have "\<dots> = Fin ((\<Sum>x\<leftarrow>xs. (x - mean_spec xs)\<^sup>2) / real (length xs - 1))"
    unfolding fsum_Fin_map by (rule fdiv_Fin_nz [OF nz])
  finally show ?thesis by (simp only: var_spec_def)
qed

lemma var_spec_nonneg: "0 \<le> var_spec xs"
  unfolding var_spec_def by (intro divide_nonneg_nonneg sum_list_nonneg) auto

text \<open>The value of the sample formula on finite samples, before clipping.\<close>

lemma sample_value:
  assumes "1 < length pos" "1 < length neg"
  shows "compute_dprime ndtri (Samples (vec (map Fin pos)) (vec (map Fin neg)))
         = Inr (scalar (fdiv (Fin (mean_spec pos - mean_spec neg))
                  (Fin (sqrt ((var_spec pos + var_spec neg) / 2)))))"
proof -
  from assms have ne: "pos \<noteq> []" "neg \<noteq> []" by auto
  have nn: "0 \<le> (var_spec pos + var_spec neg) / 2"
    using var_spec_nonneg [of pos] var_spec_nonneg [of neg] by simp
  have pooled: "fsqrt (fdiv (fadd (Fin (var_spec pos)) (Fin (var_spec neg))) (Fin 2))
                = Fin (sqrt ((var_spec pos + var_spec neg) / 2))"
    using nn by simp
  have num: "fsub (Fin (mean_spec pos)) (Fin (mean_spec neg)) = Fin (mean_spec pos - mean_spec neg)"
    by (simp add: fsub_def)
  have sz: "\<not> np_size (vec (map Fin pos)) \<le> 1" "\<not> np_size (vec (map Fin neg)) \<le> 1"
    using assms by (simp_all add: np_size_vec)
  show ?thesis
    unfolding compute_dprime.simps Let_def np_mean_Fin [OF ne(1)] np_mean_Fin [OF ne(2)]
      np_var_Fin [OF assms(1)] np_var_Fin [OF assms(2)] pooled num
    using sz by (simp add: all_finite_vec_Fin)
qed

section \<open>Clipping\<close>

lemma clip1_default: "clip1 x NInf PInf = x"
  by (cases x) (simp_all add: clip1_def np_maximum_def np_minimum_def)

lemma np_clip_default: "np_clip a NInf PInf = a"
  by (cases a) (simp add: np_clip_def np_map_def clip1_default)

lemma clip1_NaN: "clip1 NaN lo hi = NaN"
  by (simp add: clip1_def np_maximum_def np_minimum_def)

lemma fle_not_NaN: "fle a b \<Longrightarrow> a \<noteq> NaN \<and> b \<noteq> NaN"
  by (cases a; cases b) simp_all

lemma fle_trans: "fle a b \<Longrightarrow> fle b c \<Longrightarrow> fle a c"
  by (cases a; cases b; cases c) simp_all

lemma fle_refl: "a \<noteq> NaN \<Longrightarrow> fle a a"
  by (cases a) simp_all

lemma fle_total: "a \<noteq> NaN \<Longrightarrow> b \<noteq> NaN \<Longrightarrow> fle a b \<or> fle b a"
  by (cases a; cases b) auto

lemma clip1_bounds:
  assumes "fle lo hi" "x \<noteq> NaN"
  shows "fle lo (clip1 x lo hi) \<and> fle (clip1 x lo hi) hi"
proof -
  from assms(1) have nn: "lo \<noteq> NaN" "hi \<noteq> NaN" using fle_not_NaN by blast+
  show ?thesis
    using assms nn fle_total [of x lo] fle_total [of hi x] fle_refl [of lo] fle_refl [of hi]
      fle_trans [of lo x hi]
    by (auto simp: clip1_def np_maximum_def np_minimum_def)
qed

lemma clip1_eq_NaN: "fle lo hi \<Longrightarrow> clip1 x lo hi = NaN \<longleftrightarrow> x = NaN"
  using clip1_bounds [of lo hi x] fle_not_NaN clip1_NaN by metis

lemma clip1_crossed:
  assumes "fgt lo hi"
  shows "clip1 x lo hi = (if x = NaN then NaN else hi)"
  using assms
  by (cases x; cases lo; cases hi)
     (simp_all add: fgt_def clip1_def np_maximum_def np_minimum_def)

section \<open>Unfolding \<^verbatim>\<open>dprime\<close> by mode\<close>

lemma dprime_unclipped_sample:
  "dprime_unclipped cms ndtri A B ''sample'' = compute_dprime ndtri (Samples A B)"
  by (simp add: dprime_unclipped_def basic_checks_and_conversion_def)

lemma dprime_unclipped_rate:
  "dprime_unclipped cms ndtri A B ''rate'' =
     (if shape A \<noteq> shape B then Inl AssertionError else compute_dprime ndtri (Rates A B))"
  by (simp add: dprime_unclipped_def basic_checks_and_conversion_def)

lemma dprime_unclipped_binary:
  "dprime_unclipped cms ndtri A B ''binary'' =
     (case binary_conversion A B of
        Inl e \<Rightarrow> Inl e
      | Inr (pos, neg) \<Rightarrow> compute_dprime ndtri (Samples pos neg))"
  by (simp add: dprime_unclipped_def basic_checks_and_conversion_def split: sum.splits prod.splits)



lemma dprime_Inr: "dprime_unclipped cms ndtri A B mode = Inr dp
    \<Longrightarrow> dprime cms ndtri A B mode mx mn = Inr (np_clip dp mn mx)"
  by (simp add: dprime_def)

lemma dprime_default: "dprime cms ndtri A B mode PInf NInf = dprime_unclipped cms ndtri A B mode"
  by (simp add: dprime_def np_clip_default split: sum.splits)

lemma fneg_fdiv_Fin: "0 \<le> s \<Longrightarrow> fdiv (Fin (- a)) (Fin s) = fneg (fdiv (Fin a) (Fin s))"
  by (simp add: signed_inf_def)

section \<open>Sample mode\<close>



text \<open>
  Claim C8.  Antisymmetry of sample mode: for finite sample sets with more than one
  element each and the default bounds, swapping the positive and the negative samples
  negates the result.
\<close>

theorem dprime_sample_antisymmetric:
  assumes "1 < length pos" and "1 < length neg"
  shows "\<exists>x. dprime cms ndtri (vec (map Fin pos)) (vec (map Fin neg)) ''sample'' PInf NInf
                = Inr (scalar x)
            \<and> dprime cms ndtri (vec (map Fin neg)) (vec (map Fin pos)) ''sample'' PInf NInf
                = Inr (scalar (fneg x))"
proof -
  let ?s = "sqrt ((var_spec pos + var_spec neg) / 2)"
  let ?x = "fdiv (Fin (mean_spec pos - mean_spec neg)) (Fin ?s)"
  have nn: "0 \<le> ?s"
    using var_spec_nonneg [of pos] var_spec_nonneg [of neg] by simp
  have fwd: "dprime cms ndtri (vec (map Fin pos)) (vec (map Fin neg)) ''sample'' PInf NInf
               = Inr (scalar ?x)"
    unfolding dprime_default dprime_unclipped_sample by (rule sample_value [OF assms])
  have "dprime cms ndtri (vec (map Fin neg)) (vec (map Fin pos)) ''sample'' PInf NInf
          = Inr (scalar (fdiv (Fin (mean_spec neg - mean_spec pos))
                   (Fin (sqrt ((var_spec neg + var_spec pos) / 2)))))"
    unfolding dprime_default dprime_unclipped_sample by (rule sample_value [OF assms(2,1)])
  also have "fdiv (Fin (mean_spec neg - mean_spec pos))
                   (Fin (sqrt ((var_spec neg + var_spec pos) / 2)))
             = fdiv (Fin (- (mean_spec pos - mean_spec neg))) (Fin ?s)"
    by (simp add: add.commute)
  also have "\<dots> = fneg ?x"
    by (rule fneg_fdiv_Fin [OF nn])
  finally show ?thesis using fwd by blast
qed

theorem dprime_sample_antisymmetric_witness:
  "1 < length [3, 3 :: real] \<and> 1 < length [0, 2 :: real]
   \<and> dprime stats_2x2 ndtri_linear (vec (map Fin [3, 3])) (vec (map Fin [0, 2])) ''sample''
        PInf NInf = Inr (scalar (Fin 2))
   \<and> dprime stats_2x2 ndtri_linear (vec (map Fin [0, 2])) (vec (map Fin [3, 3])) ''sample''
        PInf NInf = Inr (scalar (Fin (- 2)))"
proof -
  have fwd: "dprime stats_2x2 ndtri_linear (vec (map Fin [3, 3])) (vec (map Fin [0, 2]))
               ''sample'' PInf NInf = Inr (scalar (Fin 2))"
    using sample_value [of "[3, 3]" "[0, 2]" ndtri_linear]
    by (simp add: dprime_default dprime_unclipped_sample mean_spec_def var_spec_def)
  show ?thesis
    using dprime_sample_antisymmetric [of "[3, 3]" "[0, 2]" stats_2x2 ndtri_linear] fwd
    by (auto simp: scalar_def)
qed

section \<open>Rate mode\<close>

text \<open>
  Claim C7.  Under the quantile function a rate of exactly 1 maps to plus infinity and a
  rate of exactly 0 to minus infinity, so \<^verbatim>\<open>dprime(1.0, 0.0, mode='rate')\<close> returns plus
  infinity with the default bounds, and \<^verbatim>\<open>max_value\<close> when a finite \<^verbatim>\<open>max_value\<close> is
  supplied.
\<close>

theorem rate_perfect_separation:
  "norm_ppf ndtri (Fin 1) = PInf
   \<and> norm_ppf ndtri (Fin 0) = NInf
   \<and> dprime cms ndtri (scalar (Fin 1)) (scalar (Fin 0)) ''rate'' PInf NInf = Inr (scalar PInf)
   \<and> dprime cms ndtri (scalar (Fin 1)) (scalar (Fin 0)) ''rate'' (Fin m) NInf
       = Inr (scalar (Fin m))"
  by (simp add: dprime_def dprime_unclipped_rate scalar_def np_map_def np_binop_def fsub_def
      np_clip_def clip1_def np_maximum_def np_minimum_def)

theorem rate_perfect_separation_witness:
  "dprime stats_2x2 ndtri_linear (scalar (Fin 1)) (scalar (Fin 0)) ''rate'' PInf NInf
     = Inr (scalar PInf)
   \<and> dprime stats_2x2 ndtri_linear (scalar (Fin 1)) (scalar (Fin 0)) ''rate'' (Fin 5) NInf
       = Inr (scalar (Fin 5))"
  using rate_perfect_separation [of ndtri_linear stats_2x2 5] by simp

section \<open>Binary mode\<close>

lemma mask_filter_zip:
  "length ts = length ps \<Longrightarrow>
   map fst (filter snd (zip ps (map q ts))) = map snd (filter (\<lambda>(t, p). q t) (zip ts ps))"
  by (induction ts ps rule: list_induct2) auto

lemma not_fgt_zero: "isfinite t \<Longrightarrow> (\<not> fgt t (Fin 0)) = fle t (Fin 0)"
  by (cases t) (simp_all add: fgt_def)

lemma negatives_filter:
  assumes "list_all isfinite ts"
  shows "filter (\<lambda>(t, p). \<not> fgt t (Fin 0)) (zip ts ps) = filter (\<lambda>(t, p). fle t (Fin 0)) (zip ts ps)"
proof (rule filter_cong [OF refl])
  fix x assume "x \<in> set (zip ts ps)"
  then have "fst x \<in> set ts" by (metis prod.collapse set_zip_leftD)
  with assms have "isfinite (fst x)" by (simp add: list_all_iff)
  then show "(case x of (t, p) \<Rightarrow> \<not> fgt t (Fin 0)) = (case x of (t, p) \<Rightarrow> fle t (Fin 0))"
    by (cases x) (simp add: not_fgt_zero)
qed

lemma binary_conversion_vec:
  assumes "length ts = length ps" and "list_all isfinite ts"
  shows "binary_conversion (vec ts) (vec ps)
         = Inr (vec (positives_spec ts ps), vec (negatives_spec ts ps))"
proof -
  have pos: "map fst (filter snd (zip ps (map (\<lambda>t. fgt t (Fin 0)) ts))) = positives_spec ts ps"
    unfolding positives_spec_def by (rule mask_filter_zip [OF assms(1)])
  have "map fst (filter snd (zip ps (map Not (map (\<lambda>t. fgt t (Fin 0)) ts))))
        = map fst (filter snd (zip ps (map (\<lambda>t. \<not> fgt t (Fin 0)) ts)))"
    by (simp add: comp_def)
  also have "\<dots> = map snd (filter (\<lambda>(t, p). \<not> fgt t (Fin 0)) (zip ts ps))"
    by (rule mask_filter_zip [OF assms(1)])
  also have "\<dots> = negatives_spec ts ps"
    unfolding negatives_spec_def negatives_filter [OF assms(2)] ..
  finally have neg:
    "map fst (filter snd (zip ps (map Not (map (\<lambda>t. fgt t (Fin 0)) ts)))) = negatives_spec ts ps" .
  have "binary_conversion (vec ts) (vec ps)
        = Inr (vec (map fst (filter snd (zip ps (map (\<lambda>t. fgt t (Fin 0)) ts)))),
               vec (map fst (filter snd (zip ps (map Not (map (\<lambda>t. fgt t (Fin 0)) ts))))))"
    using assms
    by (simp add: binary_conversion_def py_len_def shape_vec data_vec all_finite_vec ndim_def
        mask_index_def Let_def)
  then show ?thesis by (simp only: pos neg)
qed

lemma well_formed_1d:
  assumes "well_formed a" and "ndim a = 1"
  shows "a = vec (data a)"
proof -
  from assms(2) obtain n where sh: "shape a = [n]"
    by (cases "shape a") (auto simp: ndim_def)
  with assms(1) have "length (data a) = n" by (simp add: well_formed_def)
  with sh show ?thesis by (cases a) (simp add: vec_def)
qed

lemma binary_conversion_checks:
  assumes "binary_conversion y_true y_pred = Inr r"
  shows "ndim y_true = 1 \<and> ndim y_pred = 1 \<and> shape y_true = shape y_pred \<and> all_finite y_true"
proof -
  from assms obtain n m where len: "py_len y_true = Inr n" "py_len y_pred = Inr m"
    by (auto simp: binary_conversion_def split: sum.splits)
  with assms have c: "n = m" "all_finite y_true" "ndim y_true = 1" "ndim y_pred = 1"
    by (auto simp: binary_conversion_def split: if_splits)
  from len c(3,4) have "shape y_true = [n]" "shape y_pred = [m]"
    by (auto simp: py_len_def ndim_def split: list.splits)
  with c show ?thesis by simp
qed

lemma partition_mset:
  "length ts = length ps \<Longrightarrow> list_all isfinite ts \<Longrightarrow>
   mset (positives_spec ts ps) + mset (negatives_spec ts ps) = mset ps"
proof (induction ts ps rule: list_induct2)
  case Nil
  show ?case by (simp add: positives_spec_def negatives_spec_def)
next
  case (Cons t ts p ps)
  from Cons.prems have "isfinite t" and rest: "list_all isfinite ts" by simp_all
  from \<open>isfinite t\<close> have "fgt t (Fin 0) \<noteq> fle t (Fin 0)"
    using not_fgt_zero [of t] by blast
  with Cons.IH [OF rest] show ?case
    by (auto simp: positives_spec_def negatives_spec_def)
qed

lemma partition_length:
  "length ts = length ps \<Longrightarrow> list_all isfinite ts \<Longrightarrow>
   length (positives_spec ts ps) + length (negatives_spec ts ps) = length ps"
  using partition_mset [of ts ps] by (metis size_mset size_union)


lemma positives_subset: "set (positives_spec ts ps) \<subseteq> set ps"
  by (auto simp: positives_spec_def dest: set_zip_rightD)

lemma negatives_subset: "set (negatives_spec ts ps) \<subseteq> set ps"
  by (auto simp: negatives_spec_def dest: set_zip_rightD)

lemma partition_finite:
  assumes "list_all isfinite ps"
  shows "list_all isfinite (positives_spec ts ps)" and "list_all isfinite (negatives_spec ts ps)"
  using assms positives_subset [of ts ps] negatives_subset [of ts ps]
  by (auto simp: list_all_iff)

lemma dprime_binary_vec:
  assumes "length ts = length ps" and "list_all isfinite ts"
  shows "dprime cms ndtri (vec ts) (vec ps) ''binary'' mx mn
         = dprime cms ndtri (vec (positives_spec ts ps)) (vec (negatives_spec ts ps)) ''sample'' mx mn"
  by (simp add: dprime_def dprime_unclipped_binary dprime_unclipped_sample
      binary_conversion_vec [OF assms])

lemma too_few_positives:
  assumes "list_all isfinite pos" and "list_all isfinite neg" and "length pos \<le> 1"
  shows "dprime cms ndtri (vec pos) (vec neg) ''sample'' mx mn
         = Inl (ValueError ''Not enough positive samplesto estimate the variance'')"
  using assms
  by (simp add: dprime_def dprime_unclipped_sample all_finite_vec np_size_vec)

lemma too_few_negatives:
  assumes "list_all isfinite pos" and "list_all isfinite neg"
    and "1 < length pos" and "length neg \<le> 1"
  shows "dprime cms ndtri (vec pos) (vec neg) ''sample'' mx mn
         = Inl (ValueError ''Not enough negative samplesto estimate the variance'')"
  using assms
  by (simp add: dprime_def dprime_unclipped_sample all_finite_vec np_size_vec)

text \<open>
  Claim C2.  Binary mode is sample mode after the partition by the sign of the labels: for
  one-dimensional arrays of equal length with finite labels,
  \<^verbatim>\<open>dprime(A, B, mode='binary')\<close> equals \<^verbatim>\<open>dprime(pos, neg, mode='sample')\<close>, where
  \<open>pos\<close> are the predictions at the labels greater than zero and \<open>neg\<close> those at the
  labels less than or equal to zero; in particular for the labels \<open>[1,1,0,0]\<close> and the
  predictions \<open>[2,3,0,1]\<close>.
\<close>

theorem binary_equals_sample:
  "(length labels = length preds \<and> list_all isfinite labels \<longrightarrow>
      dprime cms ndtri (vec labels) (vec preds) ''binary'' mx mn
        = dprime cms ndtri (vec (positives_spec labels preds)) (vec (negatives_spec labels preds))
            ''sample'' mx mn)
   \<and> dprime cms ndtri (vec [Fin 1, Fin 1, Fin 0, Fin 0]) (vec [Fin 2, Fin 3, Fin 0, Fin 1])
         ''binary'' mx mn
       = dprime cms ndtri (vec [Fin 2, Fin 3]) (vec [Fin 0, Fin 1]) ''sample'' mx mn"
proof -
  have ex: "positives_spec [Fin 1, Fin 1, Fin 0, Fin 0] [Fin 2, Fin 3, Fin 0, Fin 1] = [Fin 2, Fin 3]"
    "negatives_spec [Fin 1, Fin 1, Fin 0, Fin 0] [Fin 2, Fin 3, Fin 0, Fin 1] = [Fin 0, Fin 1]"
    by (simp_all add: positives_spec_def negatives_spec_def fgt_def)
  have "dprime cms ndtri (vec [Fin 1, Fin 1, Fin 0, Fin 0]) (vec [Fin 2, Fin 3, Fin 0, Fin 1])
         ''binary'' mx mn
       = dprime cms ndtri (vec [Fin 2, Fin 3]) (vec [Fin 0, Fin 1]) ''sample'' mx mn"
    using dprime_binary_vec [of "[Fin 1, Fin 1, Fin 0, Fin 0]" "[Fin 2, Fin 3, Fin 0, Fin 1]"
        cms ndtri mx mn]
    by (simp add: ex)
  then show ?thesis
    using dprime_binary_vec [of labels preds cms ndtri mx mn] by blast
qed

theorem binary_equals_sample_witness:
  "length [Fin 1, Fin (- 1), Fin 2, Fin 0] = length [Fin 3, Fin 0, Fin 3, Fin 2]
   \<and> list_all isfinite [Fin 1, Fin (- 1), Fin 2, Fin 0]
   \<and> positives_spec [Fin 1, Fin (- 1), Fin 2, Fin 0] [Fin 3, Fin 0, Fin 3, Fin 2] = [Fin 3, Fin 3]
   \<and> negatives_spec [Fin 1, Fin (- 1), Fin 2, Fin 0] [Fin 3, Fin 0, Fin 3, Fin 2] = [Fin 0, Fin 2]
   \<and> dprime stats_2x2 ndtri_linear (vec [Fin 1, Fin (- 1), Fin 2, Fin 0])
        (vec [Fin 3, Fin 0, Fin 3, Fin 2]) ''binary'' PInf NInf
      = dprime stats_2x2 ndtri_linear (vec [Fin 3, Fin 3]) (vec [Fin 0, Fin 2]) ''sample''
          PInf NInf"
proof -
  have ex: "positives_spec [Fin 1, Fin (- 1), Fin 2, Fin 0] [Fin 3, Fin 0, Fin 3, Fin 2]
              = [Fin 3, Fin 3]"
    "negatives_spec [Fin 1, Fin (- 1), Fin 2, Fin 0] [Fin 3, Fin 0, Fin 3, Fin 2] = [Fin 0, Fin 2]"
    by (simp_all add: positives_spec_def negatives_spec_def fgt_def)
  show ?thesis
    using binary_equals_sample [of "[Fin 1, Fin (- 1), Fin 2, Fin 0]"
        "[Fin 3, Fin 0, Fin 3, Fin 2]" stats_2x2 ndtri_linear PInf NInf]
    by (simp add: ex)
qed

text \<open>
  Claim C9.  The partition of binary mode: on every call that passes the checks of binary
  mode, the predictions at the labels greater than zero form the positive samples and all
  the others (labels zero or negative) the negative samples; each prediction is in exactly
  one of the two, and the two sizes add up to the common length of the inputs.
\<close>

theorem binary_partition_invariant:
  assumes "well_formed y_true" and "well_formed y_pred"
    and "binary_conversion y_true y_pred = Inr (pos, neg)"
  shows "data pos = positives_spec (data y_true) (data y_pred)
         \<and> data neg = negatives_spec (data y_true) (data y_pred)
         \<and> mset (data pos) + mset (data neg) = mset (data y_pred)
         \<and> np_size pos + np_size neg = np_size y_pred
         \<and> np_size y_true = np_size y_pred"
proof -
  from binary_conversion_checks [OF assms(3)]
  have c: "ndim y_true = 1" "ndim y_pred = 1" "shape y_true = shape y_pred" "all_finite y_true"
    by simp_all
  have t: "y_true = vec (data y_true)" and p: "y_pred = vec (data y_pred)"
    using well_formed_1d assms(1,2) c(1,2) by blast+
  from c(3) assms(1,2) have len: "length (data y_true) = length (data y_pred)"
    by (simp add: well_formed_def)
  from c(4) have fin: "list_all isfinite (data y_true)"
    by (simp add: all_finite_def)
  have "binary_conversion (vec (data y_true)) (vec (data y_pred)) = Inr (pos, neg)"
    using assms(3) t p by simp
  with binary_conversion_vec [OF len fin]
  have pn: "pos = vec (positives_spec (data y_true) (data y_pred))"
    "neg = vec (negatives_spec (data y_true) (data y_pred))"
    by simp_all
  show ?thesis
    using partition_mset [OF len fin] partition_length [OF len fin] len
    by (simp add: pn data_vec np_size_def)
qed

theorem binary_partition_invariant_witness:
  "well_formed (vec [Fin 1, Fin (- 1), Fin 2, Fin 0])
   \<and> well_formed (vec [Fin 3, Fin 0, Fin 3, Fin 2])
   \<and> binary_conversion (vec [Fin 1, Fin (- 1), Fin 2, Fin 0]) (vec [Fin 3, Fin 0, Fin 3, Fin 2])
       = Inr (vec [Fin 3, Fin 3], vec [Fin 0, Fin 2])
   \<and> np_size (vec [Fin 3, Fin 3]) + np_size (vec [Fin 0, Fin 2])
       = np_size (vec [Fin 3, Fin 0, Fin 3, Fin 2])"
proof -
  have wf: "well_formed (vec [Fin 1, Fin (- 1), Fin 2, Fin 0])"
    "well_formed (vec [Fin 3, Fin 0, Fin 3, Fin 2])"
    by (simp_all add: well_formed_def vec_def)
  have run: "binary_conversion (vec [Fin 1, Fin (- 1), Fin 2, Fin 0])
               (vec [Fin 3, Fin 0, Fin 3, Fin 2]) = Inr (vec [Fin 3, Fin 3], vec [Fin 0, Fin 2])"
    by (simp add: binary_conversion_def py_len_def vec_def all_finite_def ndim_def
        mask_index_def fgt_def)
  show ?thesis
    using binary_partition_invariant [OF wf run] wf run by simp
qed

text \<open>
  Claim C6.  In sample and binary mode, on finite samples, \<^verbatim>\<open>dprime\<close> raises the error of
  too few samples, with a message naming the side, when the positive samples are one or
  fewer, or the negative samples are one or fewer; no mean or variance is computed.  In
  particular \<^verbatim>\<open>dprime([5.0], [1.0, 2.0], mode='sample')\<close> raises it for the positive
  side.
\<close>

theorem insufficient_samples:
  "(list_all isfinite pos \<and> list_all isfinite neg \<and> length pos \<le> 1 \<longrightarrow>
      dprime cms ndtri (vec pos) (vec neg) ''sample'' mx mn
        = Inl (ValueError ''Not enough positive samplesto estimate the variance''))
   \<and> (list_all isfinite pos \<and> list_all isfinite neg \<and> 1 < length pos \<and> length neg \<le> 1 \<longrightarrow>
      dprime cms ndtri (vec pos) (vec neg) ''sample'' mx mn
        = Inl (ValueError ''Not enough negative samplesto estimate the variance''))
   \<and> (length labels = length preds \<and> list_all isfinite labels \<and> list_all isfinite preds
        \<and> length (positives_spec labels preds) \<le> 1 \<longrightarrow>
      dprime cms ndtri (vec labels) (vec preds) ''binary'' mx mn
        = Inl (ValueError ''Not enough positive samplesto estimate the variance''))
   \<and> (length labels = length preds \<and> list_all isfinite labels \<and> list_all isfinite preds
        \<and> 1 < length (positives_spec labels preds)
        \<and> length (negatives_spec labels preds) \<le> 1 \<longrightarrow>
      dprime cms ndtri (vec labels) (vec preds) ''binary'' mx mn
        = Inl (ValueError ''Not enough negative samplesto estimate the variance''))
   \<and> dprime cms ndtri (vec [Fin 5]) (vec [Fin 1, Fin 2]) ''sample'' mx mn
        = Inl (ValueError ''Not enough positive samplesto estimate the variance'')"
proof -
  have ex: "dprime cms ndtri (vec [Fin 5]) (vec [Fin 1, Fin 2]) ''sample'' mx mn
        = Inl (ValueError ''Not enough positive samplesto estimate the variance'')"
    by (rule too_few_positives) simp_all
  show ?thesis
    using too_few_positives [of pos neg cms ndtri mx mn]
      too_few_negatives [of pos neg cms ndtri mx mn]
      too_few_positives [of "positives_spec labels preds" "negatives_spec labels preds"
        cms ndtri mx mn]
      too_few_negatives [of "positives_spec labels preds" "negatives_spec labels preds"
        cms ndtri mx mn]
      partition_finite [of preds labels]
      dprime_binary_vec [of labels preds cms ndtri mx mn] ex
    by presburger
qed


theorem insufficient_samples_witness:
  "list_all isfinite [Fin 5] \<and> list_all isfinite [Fin 1, Fin 2]
   \<and> length [Fin 5] \<le> 1 \<and> 1 < length [Fin 1, Fin 2]
   \<and> length [Fin 1, Fin 0, Fin 0] = length [Fin 5, Fin 1, Fin 2]
   \<and> positives_spec [Fin 1, Fin 0, Fin 0] [Fin 5, Fin 1, Fin 2] = [Fin 5]
   \<and> positives_spec [Fin 1, Fin 1, Fin 0] [Fin 1, Fin 2, Fin 5] = [Fin 1, Fin 2]
   \<and> negatives_spec [Fin 1, Fin 1, Fin 0] [Fin 1, Fin 2, Fin 5] = [Fin 5]
   \<and> dprime stats_2x2 ndtri_linear (vec [Fin 5]) (vec [Fin 1, Fin 2]) ''sample'' PInf NInf
       = Inl (ValueError ''Not enough positive samplesto estimate the variance'')
   \<and> dprime stats_2x2 ndtri_linear (vec [Fin 1, Fin 2]) (vec [Fin 5]) ''sample'' PInf NInf
       = Inl (ValueError ''Not enough negative samplesto estimate the variance'')
   \<and> dprime stats_2x2 ndtri_linear (vec [Fin 1, Fin 0, Fin 0]) (vec [Fin 5, Fin 1, Fin 2])
        ''binary'' PInf NInf
       = Inl (ValueError ''Not enough positive samplesto estimate the variance'')
   \<and> dprime stats_2x2 ndtri_linear (vec [Fin 1, Fin 1, Fin 0]) (vec [Fin 1, Fin 2, Fin 5])
        ''binary'' PInf NInf
       = Inl (ValueError ''Not enough negative samplesto estimate the variance'')"
proof -
  have parts: "positives_spec [Fin 1, Fin 0, Fin 0] [Fin 5, Fin 1, Fin 2] = [Fin 5]"
    "positives_spec [Fin 1, Fin 1, Fin 0] [Fin 1, Fin 2, Fin 5] = [Fin 1, Fin 2]"
    "negatives_spec [Fin 1, Fin 1, Fin 0] [Fin 1, Fin 2, Fin 5] = [Fin 5]"
    by (simp_all add: positives_spec_def negatives_spec_def fgt_def)
  show ?thesis
    using insufficient_samples [where pos = "[Fin 5]" and neg = "[Fin 1, Fin 2]"
        and labels = "[Fin 1, Fin 0, Fin 0]" and preds = "[Fin 5, Fin 1, Fin 2]"
        and cms = stats_2x2 and ndtri = ndtri_linear and mx = PInf and mn = NInf]
      insufficient_samples [where pos = "[Fin 1, Fin 2]" and neg = "[Fin 5]"
        and labels = "[Fin 1, Fin 1, Fin 0]" and preds = "[Fin 1, Fin 2, Fin 5]"
        and cms = stats_2x2 and ndtri = ndtri_linear and mx = PInf and mn = NInf]
    by (simp add: parts)
qed

section \<open>Unrecognised modes\<close>




section \<open>Non-finite rates\<close>








section \<open>The clipping step\<close>

lemma dprime_cases:
  "(\<exists>e. dprime_unclipped cms ndtri A B mode = Inl e \<and> dprime cms ndtri A B mode mx mn = Inl e)
   \<or> (\<exists>dp. dprime_unclipped cms ndtri A B mode = Inr dp
            \<and> dprime cms ndtri A B mode mx mn = Inr (np_clip dp mn mx))"
  by (cases "dprime_unclipped cms ndtri A B mode") (simp_all add: dprime_def)

lemma np_clip_shape: "shape (np_clip a lo hi) = shape a"
  by (simp add: np_clip_def np_map_def)

lemma np_clip_data: "data (np_clip a lo hi) = map (\<lambda>x. clip1 x lo hi) (data a)"
  by (simp add: np_clip_def np_map_def)

lemma zero_variance_NaN:
  "compute_dprime ndtri (Samples (vec [Fin c, Fin c]) (vec [Fin c, Fin c])) = Inr (scalar NaN)"
  using sample_value [of "[c, c]" "[c, c]" ndtri]
  by (simp add: mean_spec_def var_spec_def)

text \<open>
  Claim C3, as the program has it.  On every input on which \<^verbatim>\<open>dprime\<close> returns, with
  \<^verbatim>\<open>min_value\<close> less than or equal to \<^verbatim>\<open>max_value\<close>, the result has the shape of the
  unclipped value of the formula, and each of its elements is NaN where the unclipped
  element is NaN and lies in the closed interval from \<^verbatim>\<open>min_value\<close> to \<^verbatim>\<open>max_value\<close>
  otherwise.  With the default bounds the result is the unclipped value of the formula,
  NaN and infinities included.
\<close>

theorem clipping_law:
  "(dprime cms ndtri A B mode mx mn = Inr r \<and> fle mn mx \<longrightarrow>
      (\<exists>dp. dprime_unclipped cms ndtri A B mode = Inr dp
            \<and> shape r = shape dp
            \<and> length (data r) = length (data dp)
            \<and> (\<forall>i<length (data dp).
                  if data dp ! i = NaN then data r ! i = NaN
                  else fle mn (data r ! i) \<and> fle (data r ! i) mx)))
   \<and> dprime cms ndtri A B mode PInf NInf = dprime_unclipped cms ndtri A B mode"
proof -
  have "\<exists>dp. dprime_unclipped cms ndtri A B mode = Inr dp
            \<and> shape r = shape dp
            \<and> length (data r) = length (data dp)
            \<and> (\<forall>i<length (data dp).
                  if data dp ! i = NaN then data r ! i = NaN
                  else fle mn (data r ! i) \<and> fle (data r ! i) mx)"
    if ret: "dprime cms ndtri A B mode mx mn = Inr r" and ord: "fle mn mx"
  proof -
    from ret dprime_cases [of cms ndtri A B mode mx mn]
    obtain dp where dp: "dprime_unclipped cms ndtri A B mode = Inr dp" "r = np_clip dp mn mx"
      by auto
    have el: "data r ! i = clip1 (data dp ! i) mn mx" if "i < length (data dp)" for i
      using that by (simp add: dp(2) np_clip_data)
    have "if data dp ! i = NaN then data r ! i = NaN
          else fle mn (data r ! i) \<and> fle (data r ! i) mx" if "i < length (data dp)" for i
      using clip1_bounds [OF ord, of "data dp ! i"] clip1_NaN [of mn mx]
      unfolding el [OF that] by (cases "data dp ! i = NaN") simp_all
    moreover have "shape r = shape dp" "length (data r) = length (data dp)"
      by (simp_all add: dp(2) np_clip_shape np_clip_data)
    ultimately show ?thesis
      using dp(1) by blast
  qed
  then show ?thesis
    using dprime_default [of cms ndtri A B mode] by blast
qed

theorem clipping_law_witness:
  "dprime stats_2x2 ndtri_linear (vec [Fin 1, Fin (1 / 2), NaN]) (vec [Fin 0, Fin (1 / 2), Fin 0])
       ''rate'' (Fin 3) (Fin (- 3)) = Inr (vec [Fin 3, Fin 0, NaN])
   \<and> fle (Fin (- 3)) (Fin 3)
   \<and> dprime_unclipped stats_2x2 ndtri_linear (vec [Fin 1, Fin (1 / 2), NaN])
       (vec [Fin 0, Fin (1 / 2), Fin 0]) ''rate'' = Inr (vec [PInf, Fin 0, NaN])
   \<and> dprime stats_2x2 ndtri_linear (vec [Fin 1, Fin (1 / 2), NaN]) (vec [Fin 0, Fin (1 / 2), Fin 0])
       ''rate'' PInf NInf = Inr (vec [PInf, Fin 0, NaN])"
proof -
  have u: "dprime_unclipped stats_2x2 ndtri_linear (vec [Fin 1, Fin (1 / 2), NaN])
       (vec [Fin 0, Fin (1 / 2), Fin 0]) ''rate'' = Inr (vec [PInf, Fin 0, NaN])"
    by (simp add: dprime_unclipped_rate vec_def np_binop_def np_map_def fsub_def ndtri_linear_def)
  have c: "dprime stats_2x2 ndtri_linear (vec [Fin 1, Fin (1 / 2), NaN])
       (vec [Fin 0, Fin (1 / 2), Fin 0]) ''rate'' (Fin 3) (Fin (- 3)) = Inr (vec [Fin 3, Fin 0, NaN])"
    unfolding dprime_Inr [OF u]
    by (simp add: vec_def np_clip_def np_map_def clip1_def np_maximum_def np_minimum_def)
  show ?thesis
    using clipping_law [of stats_2x2 ndtri_linear "vec [Fin 1, Fin (1 / 2), NaN]"
        "vec [Fin 0, Fin (1 / 2), Fin 0]" "''rate''" "Fin 3" "Fin (- 3)" "vec [Fin 3, Fin 0, NaN]"]
      u c
    by simp
qed

theorem clipping_law_counterexample:
  "dprime stats_2x2 ndtri_linear (vec [Fin 1, Fin 1]) (vec [Fin 1, Fin 1]) ''sample''
       (Fin 1) (Fin (- 1)) = Inr (scalar NaN)
   \<and> \<not> (fle (Fin (- 1)) NaN \<and> fle NaN (Fin 1))
   \<and> dprime stats_2x2 ndtri_linear (vec [Fin 3, Fin 3]) (vec [Fin 0, Fin 2]) ''sample''
       (Fin 0) (Fin 1) = Inr (scalar (Fin 0))
   \<and> \<not> (fle (Fin 1) (Fin 0) \<and> fle (Fin 0) (Fin 0))"
proof -
  have a: "dprime_unclipped stats_2x2 ndtri_linear (vec [Fin 1, Fin 1]) (vec [Fin 1, Fin 1])
             ''sample'' = Inr (scalar NaN)"
    using zero_variance_NaN [of ndtri_linear 1] by (simp add: dprime_unclipped_sample)
  have b: "dprime_unclipped stats_2x2 ndtri_linear (vec [Fin 3, Fin 3]) (vec [Fin 0, Fin 2])
             ''sample'' = Inr (scalar (Fin 2))"
    using sample_value [of "[3, 3]" "[0, 2]" ndtri_linear]
    by (simp add: dprime_unclipped_sample mean_spec_def var_spec_def)
  show ?thesis
    by (simp add: dprime_Inr [OF a] dprime_Inr [OF b] scalar_def np_clip_def np_map_def
        clip1_def np_maximum_def np_minimum_def)
qed

text \<open>
  Claim C10, as the program has it.  With \<^verbatim>\<open>min_value\<close> strictly greater than
  \<^verbatim>\<open>max_value\<close> the call fails exactly when the computation before the clipping fails,
  and otherwise every element of the result is \<^verbatim>\<open>max_value\<close>, except that an element
  whose unclipped value is NaN stays NaN.
\<close>

theorem crossed_bounds:
  assumes "fgt mn mx"
  shows "(\<forall>e. dprime cms ndtri A B mode mx mn = Inl e
                \<longleftrightarrow> dprime_unclipped cms ndtri A B mode = Inl e)
         \<and> (\<forall>dp. dprime_unclipped cms ndtri A B mode = Inr dp \<longrightarrow>
                dprime cms ndtri A B mode mx mn
                  = Inr (NDArray (shape dp) (map (\<lambda>x. if x = NaN then NaN else mx) (data dp))))"
proof -
  have "np_clip dp mn mx = NDArray (shape dp) (map (\<lambda>x. if x = NaN then NaN else mx) (data dp))"
    for dp
    by (simp add: np_clip_def np_map_def clip1_crossed [OF assms])
  then show ?thesis
    using dprime_cases [of cms ndtri A B mode mx mn] by auto
qed

theorem crossed_bounds_witness:
  "fgt (Fin 1) (Fin 0)
   \<and> dprime_unclipped stats_2x2 ndtri_linear (vec [Fin 3, Fin 3]) (vec [Fin 0, Fin 2]) ''sample''
       = Inr (scalar (Fin 2))
   \<and> dprime stats_2x2 ndtri_linear (vec [Fin 3, Fin 3]) (vec [Fin 0, Fin 2]) ''sample''
       (Fin 0) (Fin 1) = Inr (scalar (Fin 0))"
proof -
  have g: "fgt (Fin 1) (Fin 0)" by (simp add: fgt_def)
  have b: "dprime_unclipped stats_2x2 ndtri_linear (vec [Fin 3, Fin 3]) (vec [Fin 0, Fin 2])
             ''sample'' = Inr (scalar (Fin 2))"
    using sample_value [of "[3, 3]" "[0, 2]" ndtri_linear]
    by (simp add: dprime_unclipped_sample mean_spec_def var_spec_def)
  show ?thesis
    using crossed_bounds [OF g, of stats_2x2 ndtri_linear "vec [Fin 3, Fin 3]"
        "vec [Fin 0, Fin 2]" "''sample''"] g b
    by (simp add: scalar_def)
qed

theorem crossed_bounds_counterexample:
  "fgt (Fin 1) (Fin 0)
   \<and> dprime stats_2x2 ndtri_linear (vec [Fin 2, Fin 2]) (vec [Fin 2, Fin 2]) ''sample''
       (Fin 0) (Fin 1) = Inr (scalar NaN)
   \<and> NaN \<noteq> Fin 0"
proof -
  have a: "dprime_unclipped stats_2x2 ndtri_linear (vec [Fin 2, Fin 2]) (vec [Fin 2, Fin 2])
             ''sample'' = Inr (scalar NaN)"
    using zero_variance_NaN [of ndtri_linear 2] by (simp add: dprime_unclipped_sample)
  show ?thesis
    by (simp add: dprime_Inr [OF a] fgt_def scalar_def np_clip_def np_map_def clip1_NaN)
qed

end
